theory Spec2Isabelle
  imports Main
begin

section \<open>Data model\<close>

text \<open>
  The application keeps all durable state in remote tables. A row of the \<open>trees\<close> table
  and a row of the \<open>tree_invitations\<close> table are records; the identifier lists are
  nullable columns (the code reads them as \<open>x or []\<close>), the usage limit is a nullable
  integer, and timestamps are integers compared with the current time.

  A handler is one sequential run against the tables. A query for a single row raises
  when the row is absent, which is the \<open>None\<close> of a lookup; a read or an update of a
  row that exists returns. Only the remote calls of the batch update, which are
  parameters, may raise for reasons of their own.
\<close>

record tree =
  owner_id :: string
  editor_ids :: "string list option"
  viewer_ids :: "string list option"
  is_public :: bool

record invitation =
  tree_id :: string
  role :: string
  expires_at :: int
  usage_limit :: "int option"
  used_by_users :: "string list option"

text \<open>
  Person data is free-form JSON, stored as it arrives. A JSON object is an association
  list read with \<open>map_of\<close>; numbers are the integers.
\<close>

datatype json =
    JNull
  | JBool bool
  | JNum int
  | JStr string
  | JList "json list"
  | JDict "(string \<times> json) list"

record person_row =
  p_tree_id :: string
  p_id :: int
  p_data :: json

text \<open>
  The remote state: the three tables and the paths of the objects in the storage bucket.
\<close>

record db =
  trees :: "string \<rightharpoonup> tree"
  tree_invitations :: "string \<rightharpoonup> invitation"
  persons :: "person_row list"
  storage :: "string list"

text \<open>
  A response is a body with an HTTP status, as Flask's \<open>(body, status)\<close> pairs: a JSON
  error or success message, a JSON identifier, a redirect (target and query message), a
  rendered template (name and message), or the bytes of a file sent by the server itself.
  Where the source interpolates the text of an exception into a message, the model keeps
  the fixed part of the message.
\<close>

datatype body =
    Json_error string
  | Json_success string
  | Json_id int
  | Redirect string string
  | Render string string
  | Send_file string

type_synonym response = "body \<times> nat"

record permissions =
  can_edit :: bool
  can_view :: bool
  tree :: tree

text \<open>Python's \<open>x or []\<close> on a nullable list column.\<close>

definition or_empty :: "'a list option \<Rightarrow> 'a list" where
  "or_empty xs = (case xs of None \<Rightarrow> [] | Some ys \<Rightarrow> ys)"

text \<open>Python's truth value of an optional string: \<open>None\<close> and the empty string are false.\<close>

definition truthy :: "string option \<Rightarrow> bool" where
  "truthy s = (case s of None \<Rightarrow> False | Some v \<Rightarrow> v \<noteq> [])"

text \<open>
  \<open>supabase.table("trees").update(cols).eq("id", tid).execute()\<close>: the matching row, when
  there is one, gets the new column values.
\<close>

definition update_tree :: "db \<Rightarrow> string \<Rightarrow> (tree \<Rightarrow> tree) \<Rightarrow> db" where
  "update_tree d tid f =
     (case trees d tid of
        None \<Rightarrow> d
      | Some t \<Rightarrow> d\<lparr>trees := (trees d)(tid \<mapsto> f t)\<rparr>)"

definition update_invitation :: "db \<Rightarrow> string \<Rightarrow> (invitation \<Rightarrow> invitation) \<Rightarrow> db" where
  "update_invitation d tok f =
     (case tree_invitations d tok of
        None \<Rightarrow> d
      | Some i \<Rightarrow> d\<lparr>tree_invitations := (tree_invitations d)(tok \<mapsto> f i)\<rparr>)"

section \<open>Permission resolver (utils.py)\<close>

text \<open>
  \<open>get_tree_and_user_permissions\<close>: \<open>.single().execute()\<close> raises when no row matches, and
  the handler of the exception returns \<open>None\<close>. The function is written in state-passing
  style so that its effect on the tables is part of its result.
\<close>

definition get_tree_and_user_permissions ::
  "db \<Rightarrow> string \<Rightarrow> string option \<Rightarrow> permissions option \<times> db" where
  "get_tree_and_user_permissions d tid user_id =
     (case trees d tid of
        None \<Rightarrow> (None, d)
      | Some tree_data \<Rightarrow>
          (if truthy user_id then
             (case user_id of
                None \<Rightarrow> (None, d)
              | Some user_uuid_str \<Rightarrow>
                  (let is_owner = (owner_id tree_data = user_uuid_str);
                       is_editor = (user_uuid_str \<in> set (or_empty (editor_ids tree_data)));
                       is_viewer = (user_uuid_str \<in> set (or_empty (viewer_ids tree_data)))
                   in (Some \<lparr>can_edit = is_owner \<or> is_editor,
                             can_view = is_public tree_data \<or> is_owner \<or> is_editor \<or> is_viewer,
                             tree = tree_data\<rparr>, d)))
           else (Some \<lparr>can_edit = False, can_view = is_public tree_data,
                       tree = tree_data\<rparr>, d)))"

section \<open>Invitation processor (utils.py, auth.py)\<close>

text \<open>
  \<open>process_invitation\<close> returns the tree identifier or \<open>None\<close>, and the tables as it
  leaves them. Every exception inside the function is caught and gives \<open>None\<close>: a missing
  invitation row and a missing tree row are the two that depend on the tables.
\<close>

definition process_invitation ::
  "db \<Rightarrow> int \<Rightarrow> string \<Rightarrow> string \<Rightarrow> string option \<times> db" where
  "process_invitation d now token_str user_id_str =
     (case tree_invitations d token_str of
        None \<Rightarrow> (None, d)
      | Some ivt \<Rightarrow>
          (if expires_at ivt < now then (None, d)
           else
             (let used = or_empty (used_by_users ivt) in
              if (case usage_limit ivt of None \<Rightarrow> False
                  | Some lim \<Rightarrow> int (length used) \<ge> lim) then (None, d)
              else if user_id_str \<in> set used then (Some (tree_id ivt), d)
              else
                (case trees d (tree_id ivt) of
                   None \<Rightarrow> (None, d)
                 | Some t \<Rightarrow>
                     (let is_already_member =
                            (user_id_str = owner_id t
                             \<or> user_id_str \<in> set (or_empty (editor_ids t))
                             \<or> user_id_str \<in> set (or_empty (viewer_ids t)));
                          d1 = (if \<not> is_already_member then
                                  (if role ivt = ''editor'' then
                                     update_tree d (tree_id ivt)
                                       (\<lambda>r. r\<lparr>editor_ids :=
                                          Some (or_empty (editor_ids t) @ [user_id_str])\<rparr>)
                                   else if role ivt = ''viewer'' then
                                     update_tree d (tree_id ivt)
                                       (\<lambda>r. r\<lparr>viewer_ids :=
                                          Some (or_empty (viewer_ids t) @ [user_id_str])\<rparr>)
                                   else d)
                                else d);
                          d2 = update_invitation d1 token_str
                                 (\<lambda>r. r\<lparr>used_by_users := Some (used @ [user_id_str])\<rparr>)
                      in (Some (tree_id ivt), d2))))))"

text \<open>
  The part of the session that \<open>join_by_token\<close> reads and writes. The view answers 400
  with the invalid-link page for an invitation that is absent, expired or full; it calls
  \<open>process_invitation\<close> for a user who is logged in, and tests its result for truth;
  it keeps the token in the session of a user who is not, and redirects to the login page.
\<close>

record session =
  user_id :: "string option"
  join_token :: "string option"




section \<open>Sharing handlers (api_sharing.py)\<close>

text \<open>
  The bodies of the three owner-only handlers, after their decorators. \<open>owner\<close> is the
  session's user identifier; the fields of the JSON payload are optional strings;
  \<open>get_user_id_by_email\<close> is the remote procedure of that name (\<open>None\<close> when it finds
  no user and the lookup raises). Python's \<open>list.remove\<close> deletes the first occurrence,
  which is \<open>remove1\<close>.
\<close>

definition share_tree ::
  "(string \<Rightarrow> string option) \<Rightarrow> db \<Rightarrow> string \<Rightarrow> string \<Rightarrow> string option \<Rightarrow> string option
     \<Rightarrow> response \<times> db" where
  "share_tree get_user_id_by_email d owner tid email r =
     (case (email, r) of
        (Some email_to_add, Some new_role) \<Rightarrow>
          (if email_to_add = [] \<or> new_role = [] then
             ((Json_error ''Email and role are required.'', 400), d)
           else if new_role \<noteq> ''editor'' \<and> new_role \<noteq> ''viewer'' then
             ((Json_error ''Invalid role. Must be 'editor' or 'viewer'.'', 400), d)
           else
             (case trees d tid of
                None \<Rightarrow> ((Json_error ''Tree not found.'', 404), d)
              | Some tree_data \<Rightarrow>
                  (if owner_id tree_data \<noteq> owner then
                     ((Json_error ''Permission denied. Only the owner can share this tree.'',
                       403), d)
                   else
                     (case get_user_id_by_email email_to_add of
                        None \<Rightarrow>
                          ((Json_error (''User with email '' @ [CHR 0x27] @ email_to_add
                                        @ [CHR 0x27] @ '' was not found.''),
                            404), d)
                      | Some user_to_add_id \<Rightarrow>
                          (let editors = or_empty (editor_ids tree_data);
                               viewers = or_empty (viewer_ids tree_data)
                           in if user_to_add_id = owner
                                 \<or> user_to_add_id \<in> set editors
                                 \<or> user_to_add_id \<in> set viewers then
                                ((Json_error ''This user already has access to this tree.'',
                                  409), d)
                              else if new_role = ''editor'' then
                                ((Json_success (''User '' @ [CHR 0x27] @ email_to_add @ [CHR 0x27]
                                                 @ '' added as '' @ new_role @ ''.''), 200),
                                 update_tree d tid
                                   (\<lambda>t. t\<lparr>editor_ids := Some (editors @ [user_to_add_id])\<rparr>))
                              else
                                ((Json_success (''User '' @ [CHR 0x27] @ email_to_add @ [CHR 0x27]
                                                 @ '' added as '' @ new_role @ ''.''), 200),
                                 update_tree d tid
                                   (\<lambda>t. t\<lparr>viewer_ids := Some (viewers @ [user_to_add_id])\<rparr>)))))))
      | _ \<Rightarrow> ((Json_error ''Email and role are required.'', 400), d))"

definition revoke_tree_access ::
  "db \<Rightarrow> string \<Rightarrow> string \<Rightarrow> string option \<Rightarrow> response \<times> db" where
  "revoke_tree_access d owner tid target =
     (case target of
        None \<Rightarrow> ((Json_error ''The ID of the user to revoke is required.'', 400), d)
      | Some user_id_to_revoke \<Rightarrow>
          (if user_id_to_revoke = [] then
             ((Json_error ''The ID of the user to revoke is required.'', 400), d)
           else
             (case trees d tid of
                None \<Rightarrow> ((Json_error ''Tree not found.'', 404), d)
              | Some tree_data \<Rightarrow>
                  (if owner_id tree_data \<noteq> owner then
                     ((Json_error ''Permission denied. Only the owner can revoke access.'',
                       403), d)
                   else if user_id_to_revoke = owner then
                     ((Json_error ''The owner cannot revoke their own access.'', 400), d)
                   else
                     (let editors = or_empty (editor_ids tree_data);
                          viewers = or_empty (viewer_ids tree_data)
                      in if user_id_to_revoke \<in> set editors then
                           ((Json_success ''User access successfully revoked.'', 200),
                            update_tree d tid
                              (\<lambda>t. t\<lparr>editor_ids := Some (remove1 user_id_to_revoke editors)\<rparr>))
                         else if user_id_to_revoke \<in> set viewers then
                           ((Json_success ''User access successfully revoked.'', 200),
                            update_tree d tid
                              (\<lambda>t. t\<lparr>viewer_ids := Some (remove1 user_id_to_revoke viewers)\<rparr>))
                         else
                           ((Json_error
                               ''The specified user does not have access to this tree.'',
                             404), d))))))"

definition change_tree_permission ::
  "db \<Rightarrow> string \<Rightarrow> string \<Rightarrow> string option \<Rightarrow> string option \<Rightarrow> response \<times> db" where
  "change_tree_permission d owner tid target r =
     (case (target, r) of
        (Some user_id_to_change, Some new_role) \<Rightarrow>
          (if user_id_to_change = [] \<or> new_role = [] then
             ((Json_error ''User ID and new role are required.'', 400), d)
           else if new_role \<noteq> ''editor'' \<and> new_role \<noteq> ''viewer'' then
             ((Json_error ''Invalid role. Must be 'editor' or 'viewer'.'', 400), d)
           else
             (case trees d tid of
                None \<Rightarrow> ((Json_error ''Tree not found.'', 404), d)
              | Some tree_data \<Rightarrow>
                  (if owner_id tree_data \<noteq> owner then
                     ((Json_error
                         ''Permission denied. Only the owner can modify permissions.'',
                       403), d)
                   else if user_id_to_change = owner then
                     ((Json_error ''The owner cannot change their own role.'', 400), d)
                   else
                     (let editors = or_empty (editor_ids tree_data);
                          viewers = or_empty (viewer_ids tree_data)
                      in if user_id_to_change \<notin> set editors
                            \<and> user_id_to_change \<notin> set viewers then
                           ((Json_error
                               ''The specified user does not have access to this tree.'',
                             404), d)
                         else
                           (let editors1 = (if user_id_to_change \<in> set editors
                                            then remove1 user_id_to_change editors
                                            else editors);
                                viewers1 = (if user_id_to_change \<in> set viewers
                                            then remove1 user_id_to_change viewers
                                            else viewers);
                                editors2 = (if new_role = ''editor''
                                            then editors1 @ [user_id_to_change]
                                            else editors1);
                                viewers2 = (if new_role = ''editor''
                                            then viewers1
                                            else viewers1 @ [user_id_to_change])
                            in ((Json_success (''User role changed to '' @ [CHR 0x27] @ new_role
                                                @ [CHR 0x27] @ ''.''), 200),
                                update_tree d tid
                                  (\<lambda>t. t\<lparr>editor_ids := Some editors2,
                                          viewer_ids := Some viewers2\<rparr>)))))))
      | _ \<Rightarrow> ((Json_error ''User ID and new role are required.'', 400), d))"

text \<open>
  The invariant of the data model on one tree row, and the same with duplicate-free
  lists.
\<close>

definition membership_ok :: "tree \<Rightarrow> bool" where
  "membership_ok t =
     (owner_id t \<notin> set (or_empty (editor_ids t))
      \<and> owner_id t \<notin> set (or_empty (viewer_ids t))
      \<and> set (or_empty (editor_ids t)) \<inter> set (or_empty (viewer_ids t)) = {})"

definition membership_sets :: "tree \<Rightarrow> bool" where
  "membership_sets t =
     (membership_ok t
      \<and> distinct (or_empty (editor_ids t)) \<and> distinct (or_empty (viewer_ids t)))"


section \<open>File serving (api_files.py)\<close>

text \<open>Python's \<open>str.startswith\<close>.\<close>

definition startswith :: "string \<Rightarrow> string \<Rightarrow> bool" where
  "startswith s p = (take (length p) s = p)"

text \<open>
  \<open>serve_protected_file\<close>. \<open>create_signed_url\<close> is the storage service's call, \<open>None\<close>
  when it raises. The handler's only responses are JSON errors and the redirect.
\<close>

definition serve_protected_file ::
  "(string \<Rightarrow> string option) \<Rightarrow> db \<Rightarrow> string option \<Rightarrow> string \<Rightarrow> string
     \<Rightarrow> response \<times> db" where
  "serve_protected_file create_signed_url d uid tid file_path =
     (case get_tree_and_user_permissions d tid uid of
        (None, d') \<Rightarrow> ((Json_error ''Tree not found'', 404), d')
      | (Some p, d') \<Rightarrow>
          (if \<not> can_view p then
             ((Json_error ''Access denied. You do not have permission to view this file.'',
               403), d')
           else if \<not> startswith file_path (tid @ ''/'') then
             ((Json_error ''Invalid file path for this tree.'', 400), d')
           else
             (case create_signed_url file_path of
                Some signed_url \<Rightarrow> ((Redirect signed_url [], 302), d')
              | None \<Rightarrow> ((Json_error ''Failed to generate signed URL'', 500), d'))))"

section \<open>Identifier allocation (api_data.py)\<close>

text \<open>
  \<open>get_new_id\<close> with the process-local dictionary \<open>new_ids_dict\<close> passed in and returned.
  \<open>if new_ids_dict.get(tree_id)\<close> is Python's truth test: a missing key and a cached
  \<open>0\<close> both take the branch that asks the remote table for its largest identifier.
\<close>

definition largest_id :: "db \<Rightarrow> string \<Rightarrow> int option" where
  "largest_id d tid =
     (case map p_id (filter (\<lambda>r. p_tree_id r = tid) (persons d)) of
        [] \<Rightarrow> None
      | i # ids \<Rightarrow> Some (fold max ids i))"

definition remote_new_id :: "db \<Rightarrow> string \<Rightarrow> int" where
  "remote_new_id d tid = (case largest_id d tid of None \<Rightarrow> 1 | Some i \<Rightarrow> i + 1)"

definition get_new_id ::
  "db \<Rightarrow> (string \<rightharpoonup> int) \<Rightarrow> string option \<Rightarrow> string \<Rightarrow> response \<times> (string \<rightharpoonup> int)" where
  "get_new_id d new_ids_dict uid tid =
     (case fst (get_tree_and_user_permissions d tid uid) of
        None \<Rightarrow> ((Json_error ''Tree not found'', 404), new_ids_dict)
      | Some p \<Rightarrow>
          (if \<not> can_edit p then ((Json_error ''Edit permission denied'', 403), new_ids_dict)
           else
             (let new_id = (case new_ids_dict tid of
                              None \<Rightarrow> remote_new_id d tid
                            | Some c \<Rightarrow> if c \<noteq> 0 then c + 1 else remote_new_id d tid)
              in ((Json_id new_id, 200), new_ids_dict(tid \<mapsto> new_id)))))"

text \<open>
  Successive calls for one tree by one process; the remote tables may differ from call to
  call. The result is the list of responses and the final dictionary.
\<close>

fun get_new_ids ::
  "db list \<Rightarrow> (string \<rightharpoonup> int) \<Rightarrow> string option \<Rightarrow> string \<Rightarrow> response list \<times> (string \<rightharpoonup> int)" where
  "get_new_ids [] c uid tid = ([], c)"
| "get_new_ids (d # ds) c uid tid =
     (case get_new_id d c uid tid of
        (r, c') \<Rightarrow> (case get_new_ids ds c' uid tid of (rs, c'') \<Rightarrow> (r # rs, c'')))"

section \<open>Decorators and routes (utils.py and the blueprints)\<close>

text \<open>
  A request, as far as the decorators read it: the session and the path. A view takes the
  request and a state of any kind and returns a response and the state.

  \<open>csrf.protect()\<close> belongs to the CSRF extension, not to this repository: the parameter
  \<open>csrf_protect\<close> says for which requests it returns without raising. \<open>login_required\<close>
  tests the presence of the session's user identifier; \<open>csrf_protect_api\<close> answers 403
  to any exception of \<open>csrf.protect()\<close>; \<open>no_cache\<close> returns the view's response
  as it is.
\<close>

record request =
  req_session :: session
  req_path :: string

definition login_required ::
  "(request \<Rightarrow> 's \<Rightarrow> response \<times> 's) \<Rightarrow> request \<Rightarrow> 's \<Rightarrow> response \<times> 's" where
  "login_required f req s =
     (case user_id (req_session req) of
        None \<Rightarrow>
          (if startswith (req_path req) ''/api/'' then
             ((Json_error ''Authentication required'', 401), s)
           else ((Redirect ''auth.login'' [], 302), s))
      | Some _ \<Rightarrow> f req s)"

definition csrf_protect_api ::
  "(request \<Rightarrow> bool) \<Rightarrow> (request \<Rightarrow> 's \<Rightarrow> response \<times> 's) \<Rightarrow> request \<Rightarrow> 's
     \<Rightarrow> response \<times> 's" where
  "csrf_protect_api csrf_protect f req s =
     (if csrf_protect req then f req s
      else ((Json_error ''CSRF token missing or incorrect'', 403), s))"

definition no_cache ::
  "(request \<Rightarrow> 's \<Rightarrow> response \<times> 's) \<Rightarrow> request \<Rightarrow> 's \<Rightarrow> response \<times> 's" where
  "no_cache f req s = f req s"

text \<open>
  The routes of the four API blueprints, in the order of the source: the rule, the
  methods, the decorators from the outermost to the innermost, and the name of the view.
\<close>

datatype decorator = Login_required | No_cache | Csrf_protect_api

record route =
  rule :: string
  methods :: "string list"
  decorators :: "decorator list"
  view_name :: string

definition url_map :: "route list" where
  "url_map =
     [\<lparr>rule = ''/api/tree/<uuid:tree_id>/data'', methods = [''GET''],
       decorators = [No_cache, Csrf_protect_api], view_name = ''get_family_tree_data''\<rparr>,
      \<lparr>rule = ''/api/tree/<uuid:tree_id>/id/new'', methods = [''GET''],
       decorators = [Login_required, No_cache, Csrf_protect_api], view_name = ''get_new_id''\<rparr>,
      \<lparr>rule = ''/api/tree/<uuid:tree_id>/persons/batch'', methods = [''POST''],
       decorators = [Login_required, No_cache, Csrf_protect_api],
       view_name = ''batch_update_persons''\<rparr>,
      \<lparr>rule = ''/api/tree/<uuid:tree_id>/upload/<string:type>'', methods = [''POST''],
       decorators = [Login_required, No_cache, Csrf_protect_api], view_name = ''upload_file''\<rparr>,
      \<lparr>rule = ''/api/tree/<uuid:tree_id>/file/<path:file_path>'', methods = [''GET''],
       decorators = [No_cache], view_name = ''serve_protected_file''\<rparr>,
      \<lparr>rule = ''/api/tree/<uuid:tree_id>/invitation'', methods = [''POST''],
       decorators = [Login_required, Csrf_protect_api], view_name = ''create_invitation''\<rparr>,
      \<lparr>rule = ''/api/tree/<uuid:tree_id>/invitation/<uuid:token>'', methods = [''DELETE''],
       decorators = [Login_required, Csrf_protect_api],
       view_name = ''expire_invitation_link''\<rparr>,
      \<lparr>rule = ''/api/tree/<uuid:tree_id>/share'', methods = [''POST''],
       decorators = [Login_required, Csrf_protect_api], view_name = ''share_tree''\<rparr>,
      \<lparr>rule = ''/api/tree/<uuid:tree_id>/revoke'', methods = [''POST''],
       decorators = [Login_required, Csrf_protect_api], view_name = ''revoke_tree_access''\<rparr>,
      \<lparr>rule = ''/api/tree/<uuid:tree_id>/permission'', methods = [''POST''],
       decorators = [Login_required, Csrf_protect_api],
       view_name = ''change_tree_permission''\<rparr>,
      \<lparr>rule = ''/api/trees'', methods = [''POST''],
       decorators = [Login_required, Csrf_protect_api], view_name = ''create_tree''\<rparr>,
      \<lparr>rule = ''/api/tree/<uuid:tree_id>'', methods = [''DELETE''],
       decorators = [Login_required, Csrf_protect_api], view_name = ''delete_tree''\<rparr>,
      \<lparr>rule = ''/api/tree/<uuid:tree_id>'', methods = [''GET''],
       decorators = [No_cache, Csrf_protect_api], view_name = ''get_family_tree_info''\<rparr>]"

definition mutating :: "route \<Rightarrow> bool" where
  "mutating r = (\<exists>m \<in> set (methods r). m \<in> {''POST'', ''PUT'', ''PATCH'', ''DELETE''})"

definition decorate ::
  "(request \<Rightarrow> bool) \<Rightarrow> decorator \<Rightarrow> (request \<Rightarrow> 's \<Rightarrow> response \<times> 's)
     \<Rightarrow> request \<Rightarrow> 's \<Rightarrow> response \<times> 's" where
  "decorate csrf_protect dec f =
     (case dec of
        Login_required \<Rightarrow> login_required f
      | No_cache \<Rightarrow> no_cache f
      | Csrf_protect_api \<Rightarrow> csrf_protect_api csrf_protect f)"

text \<open>The view function that Flask registers for a route: the decorators applied to the view.\<close>

definition endpoint ::
  "(request \<Rightarrow> bool) \<Rightarrow> route \<Rightarrow> (request \<Rightarrow> 's \<Rightarrow> response \<times> 's)
     \<Rightarrow> request \<Rightarrow> 's \<Rightarrow> response \<times> 's" where
  "endpoint csrf_protect r view = foldr (decorate csrf_protect) (decorators r) view"

section \<open>Batch person update (api_data.py)\<close>

subsection \<open>Strings and JSON values as Python reads them\<close>

text \<open>
  Strings are lists of one-byte characters, read as the code points below 256.
  \<open>str.strip()\<close> removes Python's white space from both ends, \<open>str.lower()\<close> maps the
  capital letters of that range to their small letters, \<open>s.replace(p, "")\<close> deletes the
  occurrences of \<open>p\<close> from the left without overlap, and \<open>p in s\<close> looks for \<open>p\<close> at
  every position.
\<close>

definition py_isspace :: "char \<Rightarrow> bool" where
  "py_isspace c =
     ((of_char c :: nat) \<in> {9, 10, 11, 12, 13, 28, 29, 30, 31, 32, 133, 160})"

definition strip :: "string \<Rightarrow> string" where
  "strip s = rev (dropWhile py_isspace (rev (dropWhile py_isspace s)))"

definition lower_char :: "char \<Rightarrow> char" where
  "lower_char c =
     (let n = (of_char c :: nat)
      in if (65 \<le> n \<and> n \<le> 90) \<or> (192 \<le> n \<and> n \<le> 222 \<and> n \<noteq> 215)
         then char_of (n + 32) else c)"

definition lower :: "string \<Rightarrow> string" where
  "lower s = map lower_char s"

fun remove_skipping :: "string \<Rightarrow> nat \<Rightarrow> string \<Rightarrow> string" where
  "remove_skipping p k [] = []"
| "remove_skipping p k (c # cs) =
     (if 0 < k then remove_skipping p (k - 1) cs
      else if p \<noteq> [] \<and> startswith (c # cs) p then remove_skipping p (length p - 1) cs
      else c # remove_skipping p 0 cs)"

definition replace_with_empty :: "string \<Rightarrow> string \<Rightarrow> string" where
  "replace_with_empty s p = remove_skipping p 0 s"

fun contains :: "string \<Rightarrow> string \<Rightarrow> bool" where
  "contains [] p = (p = [])"
| "contains (c # cs) p = (startswith (c # cs) p \<or> contains cs p)"

text \<open>
  The truth value of a JSON value, \<open>x.get(k, default)\<close>, iteration, \<open>"url" in x\<close> and
  \<open>x[k]\<close> for a string \<open>k\<close>. The result \<open>None\<close> stands for the exception that Python raises on a
  value of the wrong kind.
\<close>

fun json_truthy :: "json \<Rightarrow> bool" where
  "json_truthy JNull = False"
| "json_truthy (JBool b) = b"
| "json_truthy (JNum n) = (n \<noteq> 0)"
| "json_truthy (JStr s) = (s \<noteq> [])"
| "json_truthy (JList xs) = (xs \<noteq> [])"
| "json_truthy (JDict kvs) = (kvs \<noteq> [])"

fun dict_get :: "json \<Rightarrow> string \<Rightarrow> json \<Rightarrow> json option" where
  "dict_get (JDict kvs) k dflt = (case map_of kvs k of None \<Rightarrow> Some dflt | Some v \<Rightarrow> Some v)"
| "dict_get _ k dflt = None"

fun iterate :: "json \<Rightarrow> json list option" where
  "iterate (JList xs) = Some xs"
| "iterate (JStr s) = Some (map (\<lambda>c. JStr [c]) s)"
| "iterate (JDict kvs) = Some (map (\<lambda>kv. JStr (fst kv)) kvs)"
| "iterate _ = None"

fun url_in :: "json \<Rightarrow> bool option" where
  "url_in (JDict kvs) = Some (map_of kvs ''url'' \<noteq> None)"
| "url_in (JList xs) = Some (JStr ''url'' \<in> set xs)"
| "url_in (JStr s) = Some (contains s ''url'')"
| "url_in _ = None"

fun subscript :: "json \<Rightarrow> string \<Rightarrow> json option" where
  "subscript (JDict kvs) k = map_of kvs k"
| "subscript _ k = None"

text \<open>
  Python's \<open>==\<close> on JSON values: \<open>True\<close> and \<open>False\<close> are the numbers \<open>1\<close> and \<open>0\<close>,
  lists are equal item by item, and objects are equal when they have the same keys with
  equal values, in any order.
\<close>

fun num_of :: "json \<Rightarrow> int option" where
  "num_of (JNum n) = Some n"
| "num_of (JBool b) = Some (if b then 1 else 0)"
| "num_of _ = None"

fun py_eq :: "json \<Rightarrow> json \<Rightarrow> bool"
  and py_eq_list :: "json list \<Rightarrow> json list \<Rightarrow> bool"
  and py_eq_items :: "(string \<times> json) list \<Rightarrow> (string \<times> json) list \<Rightarrow> bool" where
  "py_eq JNull y = (y = JNull)"
| "py_eq (JBool b) y = (num_of y = Some (if b then 1 else 0))"
| "py_eq (JNum n) y = (num_of y = Some n)"
| "py_eq (JStr s) y = (y = JStr s)"
| "py_eq (JList xs) y = (case y of JList ys \<Rightarrow> py_eq_list xs ys | _ \<Rightarrow> False)"
| "py_eq (JDict kvs) y =
     (case y of
        JDict kws \<Rightarrow> list_all (\<lambda>kw. map_of kvs (fst kw) \<noteq> None) kws \<and> py_eq_items kvs kws
      | _ \<Rightarrow> False)"
| "py_eq_list [] ys = (ys = [])"
| "py_eq_list (x # xs) ys =
     (case ys of [] \<Rightarrow> False | z # zs \<Rightarrow> py_eq x z \<and> py_eq_list xs zs)"
| "py_eq_items [] kws = True"
| "py_eq_items (kv # kvs) kws =
     ((case map_of kws (fst kv) of None \<Rightarrow> False | Some w \<Rightarrow> py_eq (snd kv) w)
      \<and> py_eq_items kvs kws)"

text \<open>
  \<open>k in m\<close> and \<open>m[k]\<close> for a dictionary \<open>m\<close> whose keys are integers: a number is looked
  up, \<open>True\<close> and \<open>False\<close> are looked up as \<open>1\<close> and \<open>0\<close>, a string and \<open>None\<close> are
  never found, and a list or an object cannot be hashed, which raises.
\<close>

fun lookup_id :: "(int \<rightharpoonup> json) \<Rightarrow> json \<Rightarrow> json option option" where
  "lookup_id m (JNum n) = Some (m n)"
| "lookup_id m (JBool b) = Some (m (if b then 1 else 0))"
| "lookup_id m (JStr s) = Some None"
| "lookup_id m JNull = Some None"
| "lookup_id m (JList xs) = None"
| "lookup_id m (JDict kvs) = None"

text \<open>Lists of optional results: the first exception ends the loop.\<close>

fun collect :: "('a \<Rightarrow> 'b list option) \<Rightarrow> 'a list \<Rightarrow> 'b list option" where
  "collect f [] = Some []"
| "collect f (x # xs) =
     (case f x of
        None \<Rightarrow> None
      | Some ys \<Rightarrow> (case collect f xs of None \<Rightarrow> None | Some zs \<Rightarrow> Some (ys @ zs)))"

subsection \<open>Validation of the persons to add and to modify\<close>

definition is_valid_scheme :: "string \<Rightarrow> bool" where
  "is_valid_scheme u =
     (startswith u ''http:'' \<or> startswith u ''https:'' \<or> startswith u ''/'')"

definition is_dangerous :: "string \<Rightarrow> bool" where
  "is_dangerous u =
     (startswith u ''javascript:'' \<or> startswith u ''data:'' \<or> startswith u ''vbscript:'')"

text \<open>The test on one URL: trimmed and lowered, not empty, and of a scheme that is refused.\<close>

definition url_refused :: "string \<Rightarrow> bool" where
  "url_refused raw =
     (let u = lower (strip raw)
      in u \<noteq> [] \<and> (\<not> is_valid_scheme u \<or> is_dangerous u))"

definition doc_refused :: "json \<Rightarrow> bool" where
  "doc_refused doc =
     (case doc of
        JDict kvs \<Rightarrow> (case map_of kvs ''url'' of Some (JStr u) \<Rightarrow> url_refused u | _ \<Rightarrow> False)
      | _ \<Rightarrow> False)"

text \<open>
  One pass of the validation loop over a person: \<open>nh3_clean\<close> (the HTML sanitiser, a
  parameter) rewrites the string fields other than \<open>id\<close>, \<open>photo\<close> and \<open>documents\<close>;
  then the photo and the documents are tested. The result is the response that ends the
  request, or the person as rewritten. A person that is not an object has no \<open>items()\<close>:
  the exception is raised outside the handler's \<open>try\<close>, and Flask answers with its page
  for the status 500.
\<close>

definition clean_fields :: "(string \<Rightarrow> string) \<Rightarrow> (string \<times> json) list \<Rightarrow> (string \<times> json) list" where
  "clean_fields nh3_clean kvs =
     map (\<lambda>kv. case snd kv of
                 JStr s \<Rightarrow> if fst kv \<noteq> ''id'' \<and> fst kv \<noteq> ''photo'' \<and> fst kv \<noteq> ''documents''
                           then (fst kv, JStr (nh3_clean s)) else kv
               | _ \<Rightarrow> kv) kvs"

definition validate_person :: "(string \<Rightarrow> string) \<Rightarrow> json \<Rightarrow> response + json" where
  "validate_person nh3_clean person_data =
     (case person_data of
        JDict kvs \<Rightarrow>
          (let cleaned = clean_fields nh3_clean kvs in
           if (case map_of cleaned ''photo'' of Some (JStr s) \<Rightarrow> url_refused s | _ \<Rightarrow> False)
           then Inl (Json_error ''Security check failed: Illegal URL scheme'', 400)
           else if (case map_of cleaned ''documents'' of
                      Some (JList docs) \<Rightarrow> list_ex doc_refused docs
                    | _ \<Rightarrow> False)
           then Inl (Json_error ''Invalid URL in person.documents.url'', 400)
           else Inr (JDict cleaned))
      | _ \<Rightarrow> Inl (Render ''Internal Server Error'' [], 500))"

fun validate_persons :: "(string \<Rightarrow> string) \<Rightarrow> json list \<Rightarrow> response + json list" where
  "validate_persons nh3_clean [] = Inr []"
| "validate_persons nh3_clean (p # ps) =
     (case validate_person nh3_clean p of
        Inl r \<Rightarrow> Inl r
      | Inr p' \<Rightarrow>
          (case validate_persons nh3_clean ps of
             Inl r \<Rightarrow> Inl r
           | Inr ps' \<Rightarrow> Inr (p' # ps')))"

subsection \<open>Files that lose their last reference\<close>

text \<open>
  For a modified person: the old photo when it differs from the new one and is served by
  this tree, and the old documents of this tree that the new data no longer names.
\<close>

definition photo_file :: "string \<Rightarrow> json \<Rightarrow> json \<Rightarrow> string list option" where
  "photo_file api_file_prefix old_photo_url new_photo_url =
     (if json_truthy old_photo_url \<and> \<not> py_eq old_photo_url new_photo_url then
        (case old_photo_url of
           JStr s \<Rightarrow> Some (if startswith s api_file_prefix
                           then [replace_with_empty s api_file_prefix] else [])
         | _ \<Rightarrow> None)
      else Some [])"

definition old_doc_url :: "string \<Rightarrow> json \<Rightarrow> string list option" where
  "old_doc_url api_file_prefix doc =
     (case url_in doc of
        None \<Rightarrow> None
      | Some False \<Rightarrow> Some []
      | Some True \<Rightarrow>
          (case subscript doc ''url'' of
             Some (JStr u) \<Rightarrow> Some (if startswith u api_file_prefix then [u] else [])
           | _ \<Rightarrow> None))"

definition new_doc_url :: "json \<Rightarrow> json list option" where
  "new_doc_url doc =
     (case url_in doc of
        None \<Rightarrow> None
      | Some False \<Rightarrow> Some []
      | Some True \<Rightarrow>
          (case subscript doc ''url'' of
             None \<Rightarrow> None
           | Some (JList xs) \<Rightarrow> None
           | Some (JDict kvs) \<Rightarrow> None
           | Some v \<Rightarrow> Some [v]))"

definition modified_files :: "string \<Rightarrow> json \<Rightarrow> json \<Rightarrow> string list option" where
  "modified_files api_file_prefix old_data new_data =
     (case (dict_get old_data ''photo'' (JStr []), dict_get new_data ''photo'' (JStr []),
            dict_get old_data ''documents'' (JList []),
            dict_get new_data ''documents'' (JList [])) of
        (Some old_photo_url, Some new_photo_url, Some old_docs, Some new_docs) \<Rightarrow>
          (case photo_file api_file_prefix old_photo_url new_photo_url of
             None \<Rightarrow> None
           | Some photo \<Rightarrow>
               (case (iterate old_docs, iterate new_docs) of
                  (Some olds, Some news) \<Rightarrow>
                    (case (collect (old_doc_url api_file_prefix) olds,
                           collect new_doc_url news) of
                       (Some old_docs_urls, Some new_docs_urls) \<Rightarrow>
                         Some (photo
                               @ map (\<lambda>u. replace_with_empty u api_file_prefix)
                                   (filter (\<lambda>u. JStr u \<notin> set new_docs_urls)
                                      (remdups old_docs_urls)))
                     | _ \<Rightarrow> None)
                | _ \<Rightarrow> None))
      | _ \<Rightarrow> None)"

text \<open>
  For the modified persons: \<open>p["id"]\<close> raises when a person has no identifier; the rows
  found by the query make a dictionary from identifier to data (a later row replaces an
  earlier one of the same identifier); \<open>person_id in current_persons_data\<close> raises for
  an identifier that cannot be hashed; and a person found in the dictionary is compared
  with its stored data.
\<close>

definition modified_person_files ::
  "string \<Rightarrow> (int \<rightharpoonup> json) \<Rightarrow> json \<Rightarrow> string list option" where
  "modified_person_files api_file_prefix current_persons_data new_person_data =
     (case subscript new_person_data ''id'' of
        None \<Rightarrow> None
      | Some person_id \<Rightarrow>
          (case lookup_id current_persons_data person_id of
             None \<Rightarrow> None
           | Some None \<Rightarrow> Some []
           | Some (Some old_data) \<Rightarrow>
               modified_files api_file_prefix old_data new_person_data))"

text \<open>For a deleted person: the photo and the documents that this tree serves.\<close>

definition served_file :: "string \<Rightarrow> json \<Rightarrow> string list option" where
  "served_file api_file_prefix url =
     (if json_truthy url then
        (case url of
           JStr s \<Rightarrow> Some (if startswith s api_file_prefix
                           then [replace_with_empty s api_file_prefix] else [])
         | _ \<Rightarrow> None)
      else Some [])"

definition deleted_doc_file :: "string \<Rightarrow> json \<Rightarrow> string list option" where
  "deleted_doc_file api_file_prefix doc =
     (case dict_get doc ''url'' JNull of
        None \<Rightarrow> None
      | Some doc_url \<Rightarrow> served_file api_file_prefix doc_url)"

definition deleted_files :: "string \<Rightarrow> json \<Rightarrow> string list option" where
  "deleted_files api_file_prefix data =
     (case data of
        JDict kvs \<Rightarrow>
          (case (case map_of kvs ''photo'' of
                   Some (JDict photo) \<Rightarrow> dict_get (JDict photo) ''url'' (JStr [])
                 | Some v \<Rightarrow> Some v
                 | None \<Rightarrow> Some (JStr [])) of
             None \<Rightarrow> None
           | Some photo_url \<Rightarrow>
               (case served_file api_file_prefix photo_url of
                  None \<Rightarrow> None
                | Some photo \<Rightarrow>
                    (case map_of kvs ''documents'' of
                       None \<Rightarrow> Some photo
                     | Some docs \<Rightarrow>
                         (case iterate docs of
                            None \<Rightarrow> None
                          | Some ds \<Rightarrow>
                              (case collect (deleted_doc_file api_file_prefix) ds of
                                 None \<Rightarrow> None
                               | Some files \<Rightarrow> Some (photo @ files))))))
      | _ \<Rightarrow> None)"

subsection \<open>The handler\<close>

text \<open>
  The remote calls of the handler are parameters. \<open>select_persons tid ids rows\<close> is the
  query for the rows of a tree with an identifier among \<open>ids\<close>.
  \<open>batch_update_persons_atomic\<close> is the stored procedure of that name, which is not part
  of the Python sources: it returns the persons table after the additions, modifications
  and deletions, or raises and, being one transaction, leaves the table as it was.
  \<open>storage_remove\<close> is the removal of objects from the bucket: it says whether it
  returned and gives the bucket as it leaves it. In each case \<open>None\<close>, or \<open>False\<close>,
  stands for an exception.
\<close>

record remote =
  nh3_clean :: "string \<Rightarrow> string"
  select_persons :: "string \<Rightarrow> json list \<Rightarrow> person_row list \<Rightarrow> person_row list option"
  batch_update_persons_atomic ::
    "string \<Rightarrow> json list \<Rightarrow> json list \<Rightarrow> json list \<Rightarrow> person_row list \<Rightarrow> person_row list option"
  storage_remove :: "string set \<Rightarrow> string list \<Rightarrow> bool \<times> string list"

text \<open>The payload of a batch update: the three lists, an absent one being empty.\<close>

record batch =
  persons_to_add :: "json list"
  persons_to_modify :: "json list"
  ids_to_delete :: "json list"

text \<open>
  The first part of the \<open>try\<close> block: the paths of the files to delete, or \<open>None\<close> when
  an exception is raised on the way.
\<close>

definition files_to_delete :: "remote \<Rightarrow> db \<Rightarrow> string \<Rightarrow> json list \<Rightarrow> json list \<Rightarrow> string list option" where
  "files_to_delete rm d tid to_modify to_delete =
     (let api_file_prefix = ''/api/tree/'' @ tid @ ''/file/'' in
      case (if to_modify \<noteq> [] then
              (case collect (\<lambda>p. case subscript p ''id'' of
                                   None \<Rightarrow> None
                                 | Some i \<Rightarrow> Some [i]) to_modify of
                 None \<Rightarrow> None
               | Some modified_ids \<Rightarrow>
                   (case select_persons rm tid modified_ids (persons d) of
                      None \<Rightarrow> None
                    | Some rows \<Rightarrow>
                        collect (modified_person_files api_file_prefix
                                   (map_of (rev (map (\<lambda>r. (p_id r, p_data r)) rows))))
                          to_modify))
            else Some []) of
        None \<Rightarrow> None
      | Some from_modified \<Rightarrow>
          (case (if to_delete \<noteq> [] then
                   (case select_persons rm tid to_delete (persons d) of
                      None \<Rightarrow> None
                    | Some rows \<Rightarrow>
                        collect (\<lambda>r. deleted_files api_file_prefix (p_data r)) rows)
                 else Some []) of
             None \<Rightarrow> None
           | Some from_deleted \<Rightarrow> Some (from_modified @ from_deleted)))"

text \<open>
  \<open>batch_update_persons\<close> after its decorators. The payload is \<open>None\<close> when the request
  body is not a JSON object. The files are removed in one call, as the set of their
  paths (the source passes the list of a set, whose order is not fixed).
\<close>

definition batch_update_persons ::
  "remote \<Rightarrow> db \<Rightarrow> string option \<Rightarrow> string \<Rightarrow> batch option \<Rightarrow> response \<times> db" where
  "batch_update_persons rm d uid tid payload =
     (case get_tree_and_user_permissions d tid uid of
        (None, d0) \<Rightarrow> ((Json_error ''Tree not found'', 404), d0)
      | (Some p, d0) \<Rightarrow>
          (if \<not> can_edit p then ((Json_error ''Edit permission denied'', 403), d0)
           else
             (case payload of
                None \<Rightarrow> ((Json_error ''Invalid payload: JSON object expected'', 400), d0)
              | Some b \<Rightarrow>
                  (case validate_persons (nh3_clean rm) (persons_to_add b) of
                     Inl r \<Rightarrow> (r, d0)
                   | Inr to_add \<Rightarrow>
                       (case validate_persons (nh3_clean rm) (persons_to_modify b) of
                          Inl r \<Rightarrow> (r, d0)
                        | Inr to_modify \<Rightarrow>
                            (case files_to_delete rm d0 tid to_modify (ids_to_delete b) of
                               None \<Rightarrow> ((Json_error ''Error during batch processing'', 500), d0)
                             | Some files \<Rightarrow>
                                 (case batch_update_persons_atomic rm tid to_add to_modify
                                         (ids_to_delete b) (persons d0) of
                                    None \<Rightarrow>
                                      ((Json_error ''Error during batch processing'', 500), d0)
                                  | Some rows \<Rightarrow>
                                      (let d1 = d0\<lparr>persons := rows\<rparr> in
                                       if files \<noteq> [] then
                                         (case storage_remove rm (set files) (storage d1) of
                                            (True, objects) \<Rightarrow>
                                              ((Json_success ''Batch update successful.'', 200),
                                               d1\<lparr>storage := objects\<rparr>)
                                          | (False, objects) \<Rightarrow>
                                              ((Json_error ''Error during batch processing'',
                                                500), d1\<lparr>storage := objects\<rparr>))
                                       else
                                         ((Json_success ''Batch update successful.'', 200),
                                          d1)))))))))"

text \<open>
  The hypothesis on a person in one predicate: it is an object whose photo is a string, or
  one of whose documents is an object with a string \<open>url\<close>, that begins with a dangerous
  scheme once trimmed and lowered.
\<close>

definition names_dangerous :: "json \<Rightarrow> bool" where
  "names_dangerous person =
     (\<exists>kvs. person = JDict kvs
        \<and> ((\<exists>s. map_of kvs ''photo'' = Some (JStr s) \<and> is_dangerous (lower (strip s)))
           \<or> (\<exists>docs dkv u. map_of kvs ''documents'' = Some (JList docs)
                 \<and> JDict dkv \<in> set docs \<and> map_of dkv ''url'' = Some (JStr u)
                 \<and> is_dangerous (lower (strip u)))))"

section \<open>Concrete states\<close>

text \<open>
  A tree owned by alice with bob as editor, and invitations to it as viewer: a fresh one
  for a single use, one that carol has used up, and one that carol has used and that has
  no limit.
\<close>

definition demo_tree :: tree where
  "demo_tree = \<lparr>owner_id = ''alice'', editor_ids = Some [''bob''], viewer_ids = None,
                 is_public = False\<rparr>"

definition fresh_invitation :: invitation where
  "fresh_invitation = \<lparr>tree_id = ''t1'', role = ''viewer'', expires_at = 100,
                        usage_limit = Some 1, used_by_users = None\<rparr>"

definition spent_invitation :: invitation where
  "spent_invitation = \<lparr>tree_id = ''t1'', role = ''viewer'', expires_at = 100,
                        usage_limit = Some 1, used_by_users = Some [''carol'']\<rparr>"

definition open_invitation :: invitation where
  "open_invitation = \<lparr>tree_id = ''t1'', role = ''viewer'', expires_at = 100,
                       usage_limit = None, used_by_users = Some [''carol'']\<rparr>"

definition demo_db :: "invitation \<Rightarrow> db" where
  "demo_db i = \<lparr>trees = [''t1'' \<mapsto> demo_tree], tree_invitations = [''k1'' \<mapsto> i],
                 persons = [], storage = []\<rparr>"

text \<open>Tables whose only person has the identifier \<open>-1\<close>.\<close>

definition negative_db :: db where
  "negative_db = \<lparr>trees = [''t1'' \<mapsto> demo_tree], tree_invitations = Map.empty,
      persons = [\<lparr>p_tree_id = ''t1'', p_id = - 1, p_data = JNull\<rparr>], storage = []\<rparr>"

text \<open>
  A remote for the concrete states: the sanitiser changes nothing, the query filters the
  table, the stored procedure carries out the deletions and the additions, and the
  removal of objects succeeds or fails as the flag says. The tree \<open>t1\<close> has one person,
  whose photo is a stored object. The payloads delete that person, add a person whose
  photo is a script URL, and add a person whose photo is an object with such a \<open>url\<close>.
\<close>

definition demo_remote :: "bool \<Rightarrow> remote" where
  "demo_remote ok =
     \<lparr>nh3_clean = (\<lambda>s. s),
      select_persons =
        (\<lambda>tid ids rows. Some (filter (\<lambda>r. p_tree_id r = tid \<and> JNum (p_id r) \<in> set ids) rows)),
      batch_update_persons_atomic =
        (\<lambda>tid adds mods dels rows.
           Some (filter (\<lambda>r. \<not> (p_tree_id r = tid \<and> JNum (p_id r) \<in> set dels)) rows
                 @ concat (map (\<lambda>p. case subscript p ''id'' of
                                        Some (JNum n) \<Rightarrow> [\<lparr>p_tree_id = tid, p_id = n, p_data = p\<rparr>]
                                      | _ \<Rightarrow> []) adds))),
      storage_remove =
        (\<lambda>files objects. (ok, if ok then filter (\<lambda>x. x \<notin> files) objects else objects))\<rparr>"

definition photo_db :: db where
  "photo_db =
     \<lparr>trees = [''t1'' \<mapsto> demo_tree], tree_invitations = Map.empty,
      persons = [\<lparr>p_tree_id = ''t1'', p_id = 1,
                  p_data = JDict [(''id'', JNum 1),
                                  (''photo'', JStr ''/api/tree/t1/file/t1/images/a.webp'')]\<rparr>],
      storage = [''t1/images/a.webp'']\<rparr>"

definition delete_first :: batch where
  "delete_first = \<lparr>persons_to_add = [], persons_to_modify = [], ids_to_delete = [JNum 1]\<rparr>"

definition add_script :: batch where
  "add_script =
     \<lparr>persons_to_add = [JDict [(''id'', JNum 2), (''photo'', JStr '' JavaScript:alert(1)'')]],
      persons_to_modify = [], ids_to_delete = []\<rparr>"

definition add_photo_object :: batch where
  "add_photo_object =
     \<lparr>persons_to_add =
        [JDict [(''id'', JNum 2), (''photo'', JDict [(''url'', JStr ''javascript:alert(1)'')])]],
      persons_to_modify = [], ids_to_delete = []\<rparr>"

section \<open>Theorems\<close>

subsection \<open>Table updates and concrete states\<close>

lemma update_invitation_trees: "trees (update_invitation d tok f) = trees d"
  by (simp add: update_invitation_def split: option.splits)

lemma update_tree_invitations: "tree_invitations (update_tree d tid f) = tree_invitations d"
  by (simp add: update_tree_def split: option.splits)

lemma update_tree_trees:
  "trees (update_tree d tid f) = (case trees d tid of None \<Rightarrow> trees d | Some t \<Rightarrow> (trees d)(tid \<mapsto> f t))"
  by (simp add: update_tree_def split: option.splits)

lemma update_invitation_invs:
  "tree_invitations (update_invitation d tok f) =
     (case tree_invitations d tok of None \<Rightarrow> tree_invitations d | Some i \<Rightarrow> (tree_invitations d)(tok \<mapsto> f i))"
  by (simp add: update_invitation_def split: option.splits)

lemmas upd = update_invitation_trees update_tree_invitations update_tree_trees update_invitation_invs


lemmas demo = demo_db_def demo_tree_def fresh_invitation_def spent_invitation_def open_invitation_def

subsection \<open>Permission resolver\<close>

text \<open>
  Claim C1. For every tree record and every optional acting user the resolver computes
  \<open>can_view = is_public \<or> is_owner \<or> is_editor \<or> is_viewer\<close> and
  \<open>can_edit = is_owner \<or> is_editor\<close>, where the three membership tests are false when no
  user identifier is supplied (Python treats \<open>None\<close> and the empty string alike); without
  a user, \<open>can_edit\<close> is false and \<open>can_view\<close> is the public flag; an absent tree gives
  \<open>None\<close>; and the tables are returned as they were in every case.
\<close>

theorem resolver_permissions:
  "snd (get_tree_and_user_permissions d tid u) = d
   \<and> (trees d tid = None \<longrightarrow> fst (get_tree_and_user_permissions d tid u) = None)
   \<and> (\<forall>t. trees d tid = Some t \<longrightarrow>
        (\<exists>p. fst (get_tree_and_user_permissions d tid u) = Some p
           \<and> tree p = t
           \<and> (\<forall>v. u = Some v \<and> v \<noteq> [] \<longrightarrow>
                 (can_view p \<longleftrightarrow> is_public t \<or> owner_id t = v
                      \<or> v \<in> set (or_empty (editor_ids t))
                      \<or> v \<in> set (or_empty (viewer_ids t)))
               \<and> (can_edit p \<longleftrightarrow> owner_id t = v \<or> v \<in> set (or_empty (editor_ids t))))
           \<and> (\<not> truthy u \<longrightarrow> \<not> can_edit p \<and> (can_view p \<longleftrightarrow> is_public t))
           \<and> (is_public t \<longrightarrow> can_view p)))"
  by (auto simp: get_tree_and_user_permissions_def truthy_def Let_def split: option.splits)

theorem resolver_permissions_witness:
  "trees (demo_db fresh_invitation) ''t1'' = Some demo_tree
   \<and> fst (get_tree_and_user_permissions (demo_db fresh_invitation) ''t1'' (Some ''bob''))
       = Some \<lparr>can_edit = True, can_view = True, tree = demo_tree\<rparr>
   \<and> fst (get_tree_and_user_permissions (demo_db fresh_invitation) ''t1'' None)
       = Some \<lparr>can_edit = False, can_view = False, tree = demo_tree\<rparr>
   \<and> get_tree_and_user_permissions (demo_db fresh_invitation) ''t2'' (Some ''bob'')
       = (None, demo_db fresh_invitation)"
  using resolver_permissions [of "demo_db fresh_invitation" "''t1''" "Some ''bob''"]
  by (simp add: demo get_tree_and_user_permissions_def truthy_def or_empty_def)

subsection \<open>Invitations\<close>

text \<open>
  Claim C10. A user who is already the owner, an editor or a viewer of the tree, and who
  consumes an unexpired invitation below its usage limit that they have not used before,
  gets the tree identifier; the trees table is left as it was, and the user is appended
  to the invitation's usage record.
\<close>

theorem member_join_consumes_slot:
  assumes "tree_invitations d tok = Some ivt"
    and "\<not> expires_at ivt < now"
    and "\<forall>lim. usage_limit ivt = Some lim \<longrightarrow> int (length (or_empty (used_by_users ivt))) < lim"
    and "u \<notin> set (or_empty (used_by_users ivt))"
    and "trees d (tree_id ivt) = Some t"
    and "u = owner_id t \<or> u \<in> set (or_empty (editor_ids t)) \<or> u \<in> set (or_empty (viewer_ids t))"
  shows "fst (process_invitation d now tok u) = Some (tree_id ivt)
     \<and> trees (snd (process_invitation d now tok u)) = trees d
     \<and> tree_invitations (snd (process_invitation d now tok u)) =
         (tree_invitations d)(tok \<mapsto> ivt\<lparr>used_by_users := Some (or_empty (used_by_users ivt) @ [u])\<rparr>)"
  using assms
  by (auto simp: process_invitation_def Let_def upd split: option.splits)

theorem member_join_consumes_slot_witness:
  "tree_invitations (demo_db fresh_invitation) ''k1'' = Some fresh_invitation
   \<and> fst (process_invitation (demo_db fresh_invitation) 7 ''k1'' ''bob'') = Some ''t1''
   \<and> trees (snd (process_invitation (demo_db fresh_invitation) 7 ''k1'' ''bob''))
       = trees (demo_db fresh_invitation)
   \<and> tree_invitations (snd (process_invitation (demo_db fresh_invitation) 7 ''k1'' ''bob'')) ''k1''
       = Some (fresh_invitation\<lparr>used_by_users := Some [''bob'']\<rparr>)"
proof -
  have h: "tree_invitations (demo_db fresh_invitation) ''k1'' = Some fresh_invitation"
    "\<not> expires_at fresh_invitation < 7"
    "\<forall>lim. usage_limit fresh_invitation = Some lim
        \<longrightarrow> int (length (or_empty (used_by_users fresh_invitation))) < lim"
    "''bob'' \<notin> set (or_empty (used_by_users fresh_invitation))"
    "trees (demo_db fresh_invitation) (tree_id fresh_invitation) = Some demo_tree"
    "''bob'' = owner_id demo_tree \<or> ''bob'' \<in> set (or_empty (editor_ids demo_tree))
        \<or> ''bob'' \<in> set (or_empty (viewer_ids demo_tree))"
    by (simp_all add: demo or_empty_def)
  from member_join_consumes_slot [OF h] h(1) show ?thesis
    by (simp add: fresh_invitation_def or_empty_def)
qed

text \<open>
  Claim C4, as amended. A repeat consumption by a user already in the usage record never
  changes any table; when the invitation is unexpired and below its usage limit it
  returns the invitation's tree identifier.
\<close>

theorem repeat_join_idempotent:
  assumes "tree_invitations d tok = Some ivt"
    and "u \<in> set (or_empty (used_by_users ivt))"
  shows "snd (process_invitation d now tok u) = d
     \<and> (\<not> expires_at ivt < now
         \<and> (\<forall>lim. usage_limit ivt = Some lim \<longrightarrow> int (length (or_empty (used_by_users ivt))) < lim)
        \<longrightarrow> fst (process_invitation d now tok u) = Some (tree_id ivt))"
  using assms
  by (auto simp: process_invitation_def Let_def split: option.splits)

theorem repeat_join_idempotent_witness:
  "tree_invitations (demo_db open_invitation) ''k1'' = Some open_invitation
   \<and> ''carol'' \<in> set (or_empty (used_by_users open_invitation))
   \<and> process_invitation (demo_db open_invitation) 7 ''k1'' ''carol''
       = (Some ''t1'', demo_db open_invitation)"
proof -
  have h: "tree_invitations (demo_db open_invitation) ''k1'' = Some open_invitation"
    "''carol'' \<in> set (or_empty (used_by_users open_invitation))"
    by (simp_all add: demo or_empty_def)
  from repeat_join_idempotent [OF h, of 7] h show ?thesis
    by (simp add: open_invitation_def prod_eq_iff)
qed

text \<open>
  Claim C4 as stated fails: carol has used the single-use invitation, it has not expired,
  and her repeat consumption returns \<open>None\<close>, because the usage limit is tested before
  the usage record.
\<close>

theorem repeat_join_counterexample:
  "tree_invitations (demo_db spent_invitation) ''k1'' = Some spent_invitation
   \<and> ''carol'' \<in> set (or_empty (used_by_users spent_invitation))
   \<and> \<not> expires_at spent_invitation < 7
   \<and> fst (process_invitation (demo_db spent_invitation) 7 ''k1'' ''carol'') = None"
  by (simp add: demo or_empty_def process_invitation_def)








subsection \<open>Sharing\<close>

lemma or_empty_simps [simp]: "or_empty None = []" "or_empty (Some xs) = xs"
  by (simp_all add: or_empty_def)

lemma resolver_no_writes: "snd (get_tree_and_user_permissions d tid uid) = d"
  by (simp add: get_tree_and_user_permissions_def Let_def split: option.splits)

lemma new_tree_membership:
  "membership_sets \<lparr>owner_id = u, editor_ids = None, viewer_ids = None, is_public = b\<rparr>"
  by (simp add: membership_sets_def membership_ok_def)

lemma share_tree_membership:
  assumes "trees d \<tau> = Some t" and "membership_sets t"
  shows "\<exists>t'. trees (snd (share_tree g d owner tid email r)) \<tau> = Some t' \<and> membership_sets t'"
  using assms
  by (auto simp: share_tree_def Let_def upd membership_sets_def membership_ok_def
      split: option.splits if_splits)

lemma revoke_tree_access_membership:
  assumes "trees d \<tau> = Some t" and "membership_sets t"
  shows "\<exists>t'. trees (snd (revoke_tree_access d owner tid target)) \<tau> = Some t'
            \<and> membership_sets t'"
  using assms
  by (auto simp: revoke_tree_access_def Let_def upd membership_sets_def membership_ok_def
      split: option.splits if_splits dest: notin_set_remove1)

lemma change_tree_permission_membership:
  assumes "trees d \<tau> = Some t" and "membership_sets t"
  shows "\<exists>t'. trees (snd (change_tree_permission d owner tid target r)) \<tau> = Some t'
            \<and> membership_sets t'"
  using assms
  by (auto simp: change_tree_permission_def Let_def upd membership_sets_def membership_ok_def
      split: option.splits if_splits dest: notin_set_remove1)

lemma process_invitation_membership:
  assumes "trees d \<tau> = Some t" and "membership_sets t"
  shows "\<exists>t'. trees (snd (process_invitation d now tok u)) \<tau> = Some t' \<and> membership_sets t'"
  using assms
  by (auto simp: process_invitation_def Let_def upd membership_sets_def membership_ok_def
      split: option.splits if_splits)

text \<open>
  Claim C6. The editor and viewer sets of a tree are kept as lists without duplicates: a
  new tree has none, and each operation adds a user only after testing that the user is
  absent. On a tree whose two sets are disjoint and without the owner, \<open>share_tree\<close>,
  \<open>revoke_tree_access\<close>, \<open>change_tree_permission\<close> and \<open>process_invitation\<close> (on any
  tree, by any caller, with any payload) leave a row whose lists are again sets, disjoint
  and without the owner.
\<close>

theorem sharing_preserves_membership:
  assumes "trees d \<tau> = Some t" and "membership_sets t"
  shows "(\<exists>t'. trees (snd (share_tree g d owner tid email r)) \<tau> = Some t' \<and> membership_sets t')
     \<and> (\<exists>t'. trees (snd (revoke_tree_access d owner tid target)) \<tau> = Some t'
            \<and> membership_sets t')
     \<and> (\<exists>t'. trees (snd (change_tree_permission d owner tid target r)) \<tau> = Some t'
            \<and> membership_sets t')
     \<and> (\<exists>t'. trees (snd (process_invitation d now tok u)) \<tau> = Some t' \<and> membership_sets t')"
  using share_tree_membership [OF assms] revoke_tree_access_membership [OF assms]
    change_tree_permission_membership [OF assms] process_invitation_membership [OF assms]
  by blast

theorem sharing_preserves_membership_witness:
  "trees (demo_db fresh_invitation) ''t1'' = Some demo_tree
   \<and> membership_sets demo_tree
   \<and> trees (snd (change_tree_permission (demo_db fresh_invitation) ''alice'' ''t1''
                    (Some ''bob'') (Some ''viewer''))) ''t1''
       = Some (demo_tree\<lparr>editor_ids := Some [], viewer_ids := Some [''bob'']\<rparr>)
   \<and> membership_sets (demo_tree\<lparr>editor_ids := Some [], viewer_ids := Some [''bob'']\<rparr>)"
proof -
  have h: "trees (demo_db fresh_invitation) ''t1'' = Some demo_tree"
    "membership_sets demo_tree"
    by (simp_all add: demo membership_sets_def membership_ok_def)
  have e: "trees (snd (change_tree_permission (demo_db fresh_invitation) ''alice'' ''t1''
                    (Some ''bob'') (Some ''viewer''))) ''t1''
       = Some (demo_tree\<lparr>editor_ids := Some [], viewer_ids := Some [''bob'']\<rparr>)"
    by (simp add: demo change_tree_permission_def upd Let_def)
  from sharing_preserves_membership [OF h, of "\<lambda>_. None" "''alice''" "''t1''" None
      "Some ''viewer''" "Some ''bob''" 0 "''k1''" "''bob''"] h e
  show ?thesis by simp
qed

subsection \<open>File serving\<close>

text \<open>
  Claim C7. \<open>serve_protected_file\<close> writes nothing and never sends a file itself; a
  redirect is a 302 to the URL the storage service signed for the requested path, and is
  given only to a requester with view permission for a path under \<open>tree_id/\<close>; an
  absent tree gives 404, a requester without view permission 403, and a path outside the
  tree's prefix 400.
\<close>

theorem serve_protected_file_outcomes:
  "snd (serve_protected_file sign d uid tid fp) = d
   \<and> (\<forall>f c. fst (serve_protected_file sign d uid tid fp) \<noteq> (Send_file f, c))
   \<and> (\<forall>url q c. fst (serve_protected_file sign d uid tid fp) = (Redirect url q, c) \<longrightarrow>
         c = 302 \<and> sign fp = Some url \<and> startswith fp (tid @ ''/'')
         \<and> (\<exists>p. fst (get_tree_and_user_permissions d tid uid) = Some p \<and> can_view p))
   \<and> (fst (get_tree_and_user_permissions d tid uid) = None \<longrightarrow>
         fst (serve_protected_file sign d uid tid fp) = (Json_error ''Tree not found'', 404))
   \<and> (\<forall>p. fst (get_tree_and_user_permissions d tid uid) = Some p \<and> \<not> can_view p \<longrightarrow>
         fst (serve_protected_file sign d uid tid fp)
           = (Json_error ''Access denied. You do not have permission to view this file.'', 403))
   \<and> (\<forall>p. fst (get_tree_and_user_permissions d tid uid) = Some p \<and> can_view p
            \<and> \<not> startswith fp (tid @ ''/'') \<longrightarrow>
         fst (serve_protected_file sign d uid tid fp)
           = (Json_error ''Invalid file path for this tree.'', 400))
   \<and> (\<forall>p url. fst (get_tree_and_user_permissions d tid uid) = Some p \<and> can_view p
            \<and> startswith fp (tid @ ''/'') \<and> sign fp = Some url \<longrightarrow>
         fst (serve_protected_file sign d uid tid fp) = (Redirect url [], 302))"
  using resolver_no_writes [of d tid uid]
  by (cases "get_tree_and_user_permissions d tid uid")
     (auto simp: serve_protected_file_def split: option.splits)

theorem serve_protected_file_outcomes_witness:
  "fst (get_tree_and_user_permissions (demo_db fresh_invitation) ''t1'' (Some ''bob''))
     = Some \<lparr>can_edit = True, can_view = True, tree = demo_tree\<rparr>
   \<and> \<not> startswith ''t2/images/a.webp'' (''t1'' @ ''/'')
   \<and> fst (serve_protected_file (\<lambda>p. Some (''https://signed/'' @ p))
             (demo_db fresh_invitation) (Some ''bob'') ''t1'' ''t2/images/a.webp'')
       = (Json_error ''Invalid file path for this tree.'', 400)
   \<and> fst (serve_protected_file (\<lambda>p. Some (''https://signed/'' @ p))
             (demo_db fresh_invitation) (Some ''bob'') ''t1'' ''t1/images/a.webp'')
       = (Redirect (''https://signed/'' @ ''t1/images/a.webp'') [], 302)
   \<and> fst (serve_protected_file (\<lambda>p. Some (''https://signed/'' @ p))
             (demo_db fresh_invitation) None ''t1'' ''t1/images/a.webp'')
       = (Json_error ''Access denied. You do not have permission to view this file.'', 403)"
proof -
  let ?sign = "\<lambda>p. Some (''https://signed/'' @ p)"
  let ?d = "demo_db fresh_invitation"
  have p: "fst (get_tree_and_user_permissions ?d ''t1'' (Some ''bob''))
     = Some \<lparr>can_edit = True, can_view = True, tree = demo_tree\<rparr>"
    by (simp add: demo get_tree_and_user_permissions_def truthy_def)
  have q: "fst (get_tree_and_user_permissions ?d ''t1'' None)
     = Some \<lparr>can_edit = False, can_view = False, tree = demo_tree\<rparr>"
    by (simp add: demo get_tree_and_user_permissions_def truthy_def)
  have n: "\<not> startswith ''t2/images/a.webp'' (''t1'' @ ''/'')"
    and y: "startswith ''t1/images/a.webp'' (''t1'' @ ''/'')"
    by (simp_all add: startswith_def)
  have a: "fst (serve_protected_file ?sign ?d (Some ''bob'') ''t1'' ''t2/images/a.webp'')
       = (Json_error ''Invalid file path for this tree.'', 400)"
    by (rule serve_protected_file_outcomes [THEN conjunct2, THEN conjunct2, THEN conjunct2,
          THEN conjunct2, THEN conjunct2, THEN conjunct1, THEN spec, THEN mp])
       (intro conjI, rule p, simp, rule n)
  have b: "fst (serve_protected_file ?sign ?d (Some ''bob'') ''t1'' ''t1/images/a.webp'')
       = (Redirect (''https://signed/'' @ ''t1/images/a.webp'') [], 302)"
    by (rule serve_protected_file_outcomes [THEN conjunct2, THEN conjunct2, THEN conjunct2,
          THEN conjunct2, THEN conjunct2, THEN conjunct2, THEN spec, THEN spec, THEN mp])
       (intro conjI, rule p, simp, rule y, rule refl)
  have c: "fst (serve_protected_file ?sign ?d None ''t1'' ''t1/images/a.webp'')
       = (Json_error ''Access denied. You do not have permission to view this file.'', 403)"
    by (rule serve_protected_file_outcomes [THEN conjunct2, THEN conjunct2, THEN conjunct2,
          THEN conjunct2, THEN conjunct1, THEN spec, THEN mp])
       (intro conjI, rule q, simp)
  from p n a b c show ?thesis by (intro conjI)
qed

subsection \<open>Identifier allocation\<close>

lemma fold_max_ge: "(i::int) \<le> fold max ids i"
proof (induction ids arbitrary: i)
  case Nil
  then show ?case by simp
next
  case (Cons a ids)
  have "i \<le> max a i" by simp
  also have "\<dots> \<le> fold max ids (max a i)" by (rule Cons.IH)
  finally show ?case by simp
qed

lemma remote_new_id_positive:
  assumes "\<forall>r \<in> set (persons d). p_tree_id r = tid \<longrightarrow> 0 \<le> p_id r"
  shows "0 < remote_new_id d tid"
proof (cases "map p_id (filter (\<lambda>r. p_tree_id r = tid) (persons d))")
  case Nil
  then show ?thesis by (simp add: remote_new_id_def largest_id_def)
next
  case (Cons i ids)
  then have "i \<in> set (map p_id (filter (\<lambda>r. p_tree_id r = tid) (persons d)))" by simp
  with assms have "0 \<le> i" by auto
  with fold_max_ge [of i ids] have "0 \<le> fold max ids i" by linarith
  with Cons show ?thesis by (simp add: remote_new_id_def largest_id_def)
qed

lemma get_new_id_cached:
  assumes "c tid = Some n" and "n \<noteq> 0"
    and "fst (get_tree_and_user_permissions d tid uid) = Some p" and "can_edit p"
  shows "get_new_id d c uid tid = ((Json_id (n + 1), 200), c(tid \<mapsto> n + 1))"
  using assms by (simp add: get_new_id_def Let_def)

lemma get_new_ids_cached:
  assumes "c tid = Some n" and "0 < n"
    and "\<forall>d \<in> set ds. \<exists>p. fst (get_tree_and_user_permissions d tid uid) = Some p \<and> can_edit p"
  shows "fst (get_new_ids ds c uid tid) = map (\<lambda>k. (Json_id (n + 1 + int k), 200)) [0..<length ds]"
  using assms
proof (induction ds arbitrary: c n)
  case Nil
  then show ?case by simp
next
  case (Cons d ds)
  from Cons.prems obtain p where p: "fst (get_tree_and_user_permissions d tid uid) = Some p"
    "can_edit p" by auto
  from Cons.prems have n: "n \<noteq> 0" by simp
  have g: "get_new_id d c uid tid = ((Json_id (n + 1), 200), c(tid \<mapsto> n + 1))"
    using Cons.prems(1) n p by (rule get_new_id_cached)
  have "fst (get_new_ids ds (c(tid \<mapsto> n + 1)) uid tid)
      = map (\<lambda>k. (Json_id (n + 1 + 1 + int k), 200)) [0..<length ds]"
    using Cons.prems by (intro Cons.IH) auto
  moreover have "[0..<length (d # ds)] = 0 # map Suc [0..<length ds]"
    by (simp add: map_Suc_upt upt_conv_Cons del: upt_Suc)
  ultimately show ?case
    by (cases "get_new_ids ds (c(tid \<mapsto> n + 1)) uid tid")
       (simp add: g o_def add.assoc del: upt_Suc)
qed

text \<open>
  What the dictionary gives when the cached identifier is not \<open>0\<close>: the next permitted
  call returns the cached identifier plus one and caches it, whatever the remote tables
  hold; from a positive identifier, successive permitted calls return \<open>n + 1\<close>,
  \<open>n + 2\<close>, ... in order; and when the tree's stored identifiers are non-negative, the
  first call caches a positive identifier.
\<close>

lemma get_new_id_sequence:
  "(\<forall>d p. c tid = Some n \<and> n \<noteq> 0
          \<and> fst (get_tree_and_user_permissions d tid uid) = Some p \<and> can_edit p \<longrightarrow>
        get_new_id d c uid tid = ((Json_id (n + 1), 200), c(tid \<mapsto> n + 1)))
   \<and> (c tid = Some n \<and> 0 < n
        \<and> (\<forall>d \<in> set ds. \<exists>p. fst (get_tree_and_user_permissions d tid uid) = Some p
                \<and> can_edit p) \<longrightarrow>
        fst (get_new_ids ds c uid tid)
          = map (\<lambda>k. (Json_id (n + 1 + int k), 200)) [0..<length ds])
   \<and> (\<forall>d p. c tid = None
          \<and> fst (get_tree_and_user_permissions d tid uid) = Some p \<and> can_edit p
          \<and> (\<forall>r \<in> set (persons d). p_tree_id r = tid \<longrightarrow> 0 \<le> p_id r) \<longrightarrow>
        0 < remote_new_id d tid
        \<and> get_new_id d c uid tid
            = ((Json_id (remote_new_id d tid), 200), c(tid \<mapsto> remote_new_id d tid)))"
proof (intro conjI allI impI)
  fix d p
  assume "c tid = Some n \<and> n \<noteq> 0
          \<and> fst (get_tree_and_user_permissions d tid uid) = Some p \<and> can_edit p"
  then show "get_new_id d c uid tid = ((Json_id (n + 1), 200), c(tid \<mapsto> n + 1))"
    by (simp add: get_new_id_cached)
next
  assume "c tid = Some n \<and> 0 < n
        \<and> (\<forall>d \<in> set ds. \<exists>p. fst (get_tree_and_user_permissions d tid uid) = Some p
                \<and> can_edit p)"
  then show "fst (get_new_ids ds c uid tid)
          = map (\<lambda>k. (Json_id (n + 1 + int k), 200)) [0..<length ds]"
    by (intro get_new_ids_cached) simp_all
next
  fix d p
  assume a: "c tid = None
          \<and> fst (get_tree_and_user_permissions d tid uid) = Some p \<and> can_edit p
          \<and> (\<forall>r \<in> set (persons d). p_tree_id r = tid \<longrightarrow> 0 \<le> p_id r)"
  then show "0 < remote_new_id d tid" by (simp add: remote_new_id_positive)
  from a show "get_new_id d c uid tid
            = ((Json_id (remote_new_id d tid), 200), c(tid \<mapsto> remote_new_id d tid))"
    by (simp add: get_new_id_def Let_def)
qed

lemma get_new_id_sequence_example:
  "fst (get_new_ids [demo_db fresh_invitation, negative_db] [''t1'' \<mapsto> 5] (Some ''alice'') ''t1'')
     = [(Json_id 6, 200), (Json_id 7, 200)]"
proof -
  have p: "\<forall>d \<in> set [demo_db fresh_invitation, negative_db].
             \<exists>p. fst (get_tree_and_user_permissions d ''t1'' (Some ''alice'')) = Some p
                \<and> can_edit p"
    by (simp add: demo negative_db_def get_tree_and_user_permissions_def truthy_def)
  have c: "[''t1'' \<mapsto> (5::int)] ''t1'' = Some 5 \<and> (0::int) < 5" by simp
  have "fst (get_new_ids [demo_db fresh_invitation, negative_db] [''t1'' \<mapsto> 5]
               (Some ''alice'') ''t1'')
     = map (\<lambda>k. (Json_id (5 + 1 + int k), 200)) [0..<length [demo_db fresh_invitation, negative_db]]"
    by (rule get_new_id_sequence [THEN conjunct2, THEN conjunct1, THEN mp])
       (intro conjI, rule c [THEN conjunct1], rule c [THEN conjunct2], rule p)
  also have "\<dots> = [(Json_id 6, 200), (Json_id 7, 200)]"
    by (simp add: upt_rec)
  finally show ?thesis .
qed

text \<open>
  Claim C9. The code does not do what the claim says when a returned identifier is
  \<open>0\<close>. The test \<open>if new_ids_dict.get(tree_id)\<close> is meant to find a cached identifier,
  but a cached \<open>0\<close> is false in Python. Person identifiers come from the client, and the
  only person of the tree has the identifier \<open>-1\<close>: the first call returns \<open>0\<close> and
  caches it, and the second call asks the remote table again and returns \<open>0\<close> again,
  not \<open>1\<close>.
\<close>

theorem get_new_id_repeats_zero:
  "fst (get_new_ids [negative_db, negative_db] Map.empty (Some ''alice'') ''t1'')
     = [(Json_id 0, 200), (Json_id 0, 200)]"
  by (simp add: negative_db_def demo_tree_def get_new_id_def get_tree_and_user_permissions_def
      truthy_def remote_new_id_def largest_id_def Let_def)

subsection \<open>Decorators\<close>

text \<open>
  Claim C2. The routes with a mutating method are the nine views of tree creation and
  deletion, batch person update, file upload, share, revoke and permission edits, and
  invitation creation and revocation. For each of them, whatever the view does: a request
  without a session user is answered 401 (a redirect to the login page off the API
  prefix) and the view does not run; a request with a session user on which
  \<open>csrf.protect()\<close> raises is answered 403 and the view does not run; and a request that
  passes both runs the view.
\<close>

theorem mutating_endpoints_guarded:
  "map view_name (filter mutating url_map) =
     [''batch_update_persons'', ''upload_file'', ''create_invitation'',
      ''expire_invitation_link'', ''share_tree'', ''revoke_tree_access'',
      ''change_tree_permission'', ''create_tree'', ''delete_tree'']
   \<and> (\<forall>r \<in> set url_map. mutating r \<longrightarrow>
        (\<forall>view req s.
           (user_id (req_session req) = None \<longrightarrow>
              endpoint csrf_protect r view req s =
                (if startswith (req_path req) ''/api/''
                 then ((Json_error ''Authentication required'', 401), s)
                 else ((Redirect ''auth.login'' [], 302), s)))
         \<and> (user_id (req_session req) \<noteq> None \<and> \<not> csrf_protect req \<longrightarrow>
              endpoint csrf_protect r view req s =
                ((Json_error ''CSRF token missing or incorrect'', 403), s))
         \<and> (user_id (req_session req) \<noteq> None \<and> csrf_protect req \<longrightarrow>
              endpoint csrf_protect r view req s = view req s)))"
  by (auto simp: url_map_def mutating_def endpoint_def decorate_def login_required_def
      csrf_protect_api_def no_cache_def split: option.splits)

theorem mutating_endpoints_guarded_witness:
  "\<lparr>rule = ''/api/tree/<uuid:tree_id>/share'', methods = [''POST''],
       decorators = [Login_required, Csrf_protect_api], view_name = ''share_tree''\<rparr>
     \<in> set url_map
   \<and> mutating \<lparr>rule = ''/api/tree/<uuid:tree_id>/share'', methods = [''POST''],
       decorators = [Login_required, Csrf_protect_api], view_name = ''share_tree''\<rparr>
   \<and> endpoint (\<lambda>req. False)
        \<lparr>rule = ''/api/tree/<uuid:tree_id>/share'', methods = [''POST''],
          decorators = [Login_required, Csrf_protect_api], view_name = ''share_tree''\<rparr>
        (\<lambda>req s. ((Json_success ''done'', 200), Suc s))
        \<lparr>req_session = \<lparr>user_id = Some ''alice'', join_token = None\<rparr>,
          req_path = ''/api/tree/t1/share''\<rparr> (0::nat)
       = ((Json_error ''CSRF token missing or incorrect'', 403), 0)"
proof -
  let ?r = "\<lparr>rule = ''/api/tree/<uuid:tree_id>/share'', methods = [''POST''],
       decorators = [Login_required, Csrf_protect_api], view_name = ''share_tree''\<rparr>"
  have h: "?r \<in> set url_map" "mutating ?r"
    by (simp_all add: url_map_def mutating_def)
  have "endpoint (\<lambda>req. False) ?r (\<lambda>req s. ((Json_success ''done'', 200), Suc s))
        \<lparr>req_session = \<lparr>user_id = Some ''alice'', join_token = None\<rparr>,
          req_path = ''/api/tree/t1/share''\<rparr> (0::nat)
       = ((Json_error ''CSRF token missing or incorrect'', 403), 0)"
    by (rule mutating_endpoints_guarded [THEN conjunct2, THEN bspec, OF h(1), THEN mp, OF h(2),
          THEN spec, THEN spec, THEN spec, THEN conjunct2, THEN conjunct1, THEN mp]) simp
  with h show ?thesis by simp
qed

subsection \<open>Batch person update\<close>

lemma is_dangerous_refused: "is_dangerous (lower (strip raw)) \<Longrightarrow> url_refused raw"
  by (auto simp: url_refused_def is_dangerous_def startswith_def Let_def)

lemma map_of_clean_fields:
  "k = ''photo'' \<or> k = ''documents'' \<Longrightarrow> map_of (clean_fields c kvs) k = map_of kvs k"
  by (induction kvs) (auto simp: clean_fields_def split: json.splits)

lemma validate_person_dangerous:
  assumes "names_dangerous person"
  shows "\<exists>msg. validate_person c person = Inl (Json_error msg, 400)"
proof -
  from assms obtain kvs where k: "person = JDict kvs"
    and b: "(\<exists>s. map_of kvs ''photo'' = Some (JStr s) \<and> is_dangerous (lower (strip s)))
           \<or> (\<exists>docs dkv u. map_of kvs ''documents'' = Some (JList docs)
                 \<and> JDict dkv \<in> set docs \<and> map_of dkv ''url'' = Some (JStr u)
                 \<and> is_dangerous (lower (strip u)))"
    unfolding names_dangerous_def by blast
  from b show ?thesis
  proof
    assume "\<exists>s. map_of kvs ''photo'' = Some (JStr s) \<and> is_dangerous (lower (strip s))"
    then show ?thesis
      by (auto simp: k validate_person_def Let_def map_of_clean_fields is_dangerous_refused)
  next
    assume "\<exists>docs dkv u. map_of kvs ''documents'' = Some (JList docs)
                 \<and> JDict dkv \<in> set docs \<and> map_of dkv ''url'' = Some (JStr u)
                 \<and> is_dangerous (lower (strip u))"
    then obtain docs dkv u where d: "map_of kvs ''documents'' = Some (JList docs)"
      "JDict dkv \<in> set docs" "map_of dkv ''url'' = Some (JStr u)"
      "is_dangerous (lower (strip u))" by blast
    have "doc_refused (JDict dkv)"
      using d(3,4) by (simp add: doc_refused_def is_dangerous_refused)
    with d(2) have "list_ex doc_refused docs" by (auto simp: list_ex_iff)
    with d(1) show ?thesis
      by (simp add: k validate_person_def Let_def map_of_clean_fields)
  qed
qed

lemma validate_person_status:
  "validate_person c (JDict kvs) = Inl r \<Longrightarrow> \<exists>msg. r = (Json_error msg, 400)"
  by (auto simp: validate_person_def Let_def split: if_splits)

lemma validate_persons_dangerous:
  assumes "\<forall>q \<in> set ps. \<exists>k. q = JDict k" and "\<exists>q \<in> set ps. names_dangerous q"
  shows "\<exists>msg. validate_persons c ps = Inl (Json_error msg, 400)"
  using assms
proof (induction ps)
  case Nil
  then show ?case by simp
next
  case (Cons p ps)
  from Cons.prems(1) obtain k where k: "p = JDict k" by auto
  show ?case
  proof (cases "validate_person c p")
    case (Inl r)
    with validate_person_status [of c k r] k show ?thesis by auto
  next
    case (Inr p')
    with validate_person_dangerous [of p c] have "\<not> names_dangerous p" by auto
    with Cons.prems have "\<exists>msg. validate_persons c ps = Inl (Json_error msg, 400)"
      by (intro Cons.IH) auto
    with Inr show ?thesis by auto
  qed
qed

lemma validate_persons_status:
  assumes "\<forall>q \<in> set ps. \<exists>k. q = JDict k" and "validate_persons c ps = Inl r"
  shows "\<exists>msg. r = (Json_error msg, 400)"
  using assms
proof (induction ps arbitrary: r)
  case Nil
  then show ?case by simp
next
  case (Cons p ps)
  from Cons.prems(1) obtain k where k: "p = JDict k" by auto
  show ?case
  proof (cases "validate_person c p")
    case (Inl r')
    with validate_person_status [of c k r'] k Cons.prems(2) show ?thesis by auto
  next
    case (Inr p')
    show ?thesis
    proof (cases "validate_persons c ps")
      case (Inl r')
      with Inr Cons.prems(2) have "r = r'" by simp
      moreover from Cons.prems(1) have "\<forall>q \<in> set ps. \<exists>k. q = JDict k" by simp
      then have "\<exists>msg. r' = (Json_error msg, 400)" using Inl by (rule Cons.IH)
      ultimately show ?thesis by simp
    next
      case (Inr ps')
      with \<open>validate_person c p = Inr p'\<close> Cons.prems(2) show ?thesis by simp
    qed
  qed
qed

text \<open>
  What the validation loop does reject. In a batch update by a user with edit permission
  whose persons are JSON objects: when a person of the add or modify list has a photo
  string, or a document with a \<open>url\<close> string, that begins with \<open>javascript:\<close>,
  \<open>data:\<close> or \<open>vbscript:\<close> after trimming and lowering, the answer is a 400 error and
  the tables and the bucket are as they were.
\<close>

lemma dangerous_url_rejected:
  assumes "fst (get_tree_and_user_permissions d tid uid) = Some p" and "can_edit p"
    and "\<forall>q \<in> set (persons_to_add b) \<union> set (persons_to_modify b). \<exists>k. q = JDict k"
    and "JDict kvs \<in> set (persons_to_add b) \<union> set (persons_to_modify b)"
    and "(\<exists>s. map_of kvs ''photo'' = Some (JStr s) \<and> is_dangerous (lower (strip s)))
         \<or> (\<exists>docs dkv u. map_of kvs ''documents'' = Some (JList docs)
               \<and> JDict dkv \<in> set docs \<and> map_of dkv ''url'' = Some (JStr u)
               \<and> is_dangerous (lower (strip u)))"
  shows "\<exists>msg. batch_update_persons rm d uid tid (Some b) = ((Json_error msg, 400), d)"
proof -
  have g: "get_tree_and_user_permissions d tid uid = (Some p, d)"
    using assms(1) resolver_no_writes [of d tid uid]
    by (cases "get_tree_and_user_permissions d tid uid") simp
  have nd: "names_dangerous (JDict kvs)"
    using assms(5) unfolding names_dangerous_def by blast
  have a: "\<forall>q \<in> set (persons_to_add b). \<exists>k. q = JDict k"
    and m: "\<forall>q \<in> set (persons_to_modify b). \<exists>k. q = JDict k"
    using assms(3) by auto
  show ?thesis
  proof (cases "validate_persons (nh3_clean rm) (persons_to_add b)")
    case (Inl r)
    with validate_persons_status [OF a Inl] show ?thesis
      using g assms(2) by (auto simp: batch_update_persons_def)
  next
    case (Inr to_add)
    with validate_persons_dangerous [OF a, of "nh3_clean rm"] nd assms(4)
    have "JDict kvs \<in> set (persons_to_modify b)" by auto
    with validate_persons_dangerous [OF m, of "nh3_clean rm"] nd
    obtain msg where "validate_persons (nh3_clean rm) (persons_to_modify b)
        = Inl (Json_error msg, 400)" by blast
    with Inr g assms(2) show ?thesis
      by (auto simp: batch_update_persons_def)
  qed
qed

lemma dangerous_url_rejected_example:
  "fst (get_tree_and_user_permissions photo_db ''t1'' (Some ''alice''))
     = Some \<lparr>can_edit = True, can_view = True, tree = demo_tree\<rparr>
   \<and> lower (strip '' JavaScript:alert(1)'') = ''javascript:alert(1)''
   \<and> is_dangerous ''javascript:alert(1)''
   \<and> (\<exists>msg. batch_update_persons (demo_remote True) photo_db (Some ''alice'') ''t1''
               (Some add_script) = ((Json_error msg, 400), photo_db))"
proof -
  have p: "fst (get_tree_and_user_permissions photo_db ''t1'' (Some ''alice''))
     = Some \<lparr>can_edit = True, can_view = True, tree = demo_tree\<rparr>"
    by (simp add: photo_db_def demo_tree_def get_tree_and_user_permissions_def truthy_def)
  have l: "lower (strip '' JavaScript:alert(1)'') = ''javascript:alert(1)''"
    by code_simp
  have i: "is_dangerous ''javascript:alert(1)''"
    by (simp add: is_dangerous_def startswith_def)
  have o: "\<forall>q \<in> set (persons_to_add add_script) \<union> set (persons_to_modify add_script).
             \<exists>k. q = JDict k"
    by (simp add: add_script_def)
  have m: "JDict [(''id'', JNum 2), (''photo'', JStr '' JavaScript:alert(1)'')]
      \<in> set (persons_to_add add_script) \<union> set (persons_to_modify add_script)"
    by (simp add: add_script_def)
  have u: "(\<exists>s. map_of [(''id'', JNum 2), (''photo'', JStr '' JavaScript:alert(1)'')] ''photo''
                = Some (JStr s) \<and> is_dangerous (lower (strip s)))
         \<or> (\<exists>docs dkv u. map_of [(''id'', JNum 2), (''photo'', JStr '' JavaScript:alert(1)'')]
                  ''documents'' = Some (JList docs)
               \<and> JDict dkv \<in> set docs \<and> map_of dkv ''url'' = Some (JStr u)
               \<and> is_dangerous (lower (strip u)))"
    using l i by simp
  from dangerous_url_rejected [OF p _ o m u, of "demo_remote True"] p l i
  show ?thesis by simp
qed

text \<open>
  Claim C5. The code does not do what the claim says for a photo given as an object with
  a \<open>url\<close>, the form that the deletion branch of the same handler reads and that the
  comment of the test, \<open>Check person.photo.url\<close>, names. The test is made on a photo that
  is a string only: alice adds a person whose photo is the object with the \<open>url\<close>
  \<open>javascript:alert(1)\<close>, the validation lets it through, the stored procedure writes
  the person, and the answer is a success.
\<close>

theorem photo_object_accepted:
  "batch_update_persons (demo_remote True) photo_db (Some ''alice'') ''t1'' (Some add_photo_object)
     = ((Json_success ''Batch update successful.'', 200),
        photo_db\<lparr>persons :=
          persons photo_db
          @ [\<lparr>p_tree_id = ''t1'', p_id = 2,
               p_data = JDict [(''id'', JNum 2),
                               (''photo'', JDict [(''url'', JStr ''javascript:alert(1)'')])]\<rparr>]\<rparr>)"
  by (simp add: batch_update_persons_def get_tree_and_user_permissions_def truthy_def
      files_to_delete_def demo_remote_def photo_db_def add_photo_object_def demo_tree_def
      validate_person_def clean_fields_def Let_def)

text \<open>
  Two readings of Python that the paths of the files depend on: an identifier that cannot
  be hashed raises at the dictionary test, and an object-valued photo is unchanged when
  only the order of its keys differs.
\<close>

lemma unhashable_id_raises:
  "modified_person_files pre m (JDict [(''id'', JList [JNum 1]), (''photo'', JStr ''/new'')])
     = None"
  by (simp add: modified_person_files_def)

lemma reordered_photo_unchanged:
  "photo_file pre (JDict [(''url'', JStr ''a''), (''alt'', JBool True)])
                  (JDict [(''alt'', JNum 1), (''url'', JStr ''a'')]) = Some []"
  by (simp add: photo_file_def)

text \<open>
  Claim C8, as amended. A batch update that reaches the stored procedure calls it once,
  with the three lists: when it raises, the answer is 500 and nothing has changed; when
  it returns, the persons table is what it returned, whatever the removal of the files
  does afterwards. The removal is not rolled back into the table, and it is not ignored
  either: the answer is a success when there is nothing to remove or the removal
  returns, and a 500 error when the removal raises.
\<close>

theorem batch_update_effects:
  assumes "fst (get_tree_and_user_permissions d tid uid) = Some p" and "can_edit p"
    and "validate_persons (nh3_clean rm) (persons_to_add b) = Inr to_add"
    and "validate_persons (nh3_clean rm) (persons_to_modify b) = Inr to_modify"
    and "files_to_delete rm d tid to_modify (ids_to_delete b) = Some files"
  shows "(batch_update_persons_atomic rm tid to_add to_modify (ids_to_delete b) (persons d) = None
          \<longrightarrow> batch_update_persons rm d uid tid (Some b)
                = ((Json_error ''Error during batch processing'', 500), d))
     \<and> (\<forall>rows. batch_update_persons_atomic rm tid to_add to_modify (ids_to_delete b) (persons d)
                 = Some rows \<longrightarrow>
           persons (snd (batch_update_persons rm d uid tid (Some b))) = rows
         \<and> (files = [] \<longrightarrow>
               batch_update_persons rm d uid tid (Some b)
                 = ((Json_success ''Batch update successful.'', 200), d\<lparr>persons := rows\<rparr>))
         \<and> (files \<noteq> [] \<longrightarrow>
               storage (snd (batch_update_persons rm d uid tid (Some b)))
                 = snd (storage_remove rm (set files) (storage d))
             \<and> fst (batch_update_persons rm d uid tid (Some b))
                 = (if fst (storage_remove rm (set files) (storage d))
                    then (Json_success ''Batch update successful.'', 200)
                    else (Json_error ''Error during batch processing'', 500))))"
proof -
  have g: "get_tree_and_user_permissions d tid uid = (Some p, d)"
    using assms(1) resolver_no_writes [of d tid uid]
    by (cases "get_tree_and_user_permissions d tid uid") simp
  show ?thesis
    using assms(2-5)
    by (cases "storage_remove rm (set files) (storage d)")
       (auto simp: batch_update_persons_def g Let_def split: bool.splits)
qed

theorem batch_update_effects_witness:
  "persons (snd (batch_update_persons (demo_remote True) photo_db (Some ''alice'') ''t1''
            (Some delete_first))) = []
   \<and> storage (snd (batch_update_persons (demo_remote True) photo_db (Some ''alice'') ''t1''
            (Some delete_first))) = []
   \<and> fst (batch_update_persons (demo_remote True) photo_db (Some ''alice'') ''t1''
            (Some delete_first)) = (Json_success ''Batch update successful.'', 200)"
proof -
  have p: "fst (get_tree_and_user_permissions photo_db ''t1'' (Some ''alice''))
     = Some \<lparr>can_edit = True, can_view = True, tree = demo_tree\<rparr>"
    by (simp add: photo_db_def demo_tree_def get_tree_and_user_permissions_def truthy_def)
  have e: "can_edit \<lparr>can_edit = True, can_view = True, tree = demo_tree\<rparr>" by simp
  have a: "validate_persons (nh3_clean (demo_remote True)) (persons_to_add delete_first) = Inr []"
    and m: "validate_persons (nh3_clean (demo_remote True)) (persons_to_modify delete_first) = Inr []"
    by (simp_all add: delete_first_def)
  have f: "files_to_delete (demo_remote True) photo_db ''t1'' [] (ids_to_delete delete_first)
      = Some [''t1/images/a.webp'']"
    by (simp add: files_to_delete_def demo_remote_def photo_db_def delete_first_def
        deleted_files_def served_file_def startswith_def replace_with_empty_def)
  have r: "batch_update_persons_atomic (demo_remote True) ''t1'' [] [] (ids_to_delete delete_first)
             (persons photo_db) = Some []"
    by (simp add: demo_remote_def photo_db_def delete_first_def)
  have s: "storage_remove (demo_remote True) (set [''t1/images/a.webp'']) (storage photo_db)
      = (True, [])"
    by (simp add: demo_remote_def photo_db_def)
  from batch_update_effects [OF p e a m f] r s
  show ?thesis by simp
qed

text \<open>
  Claim C8 as stated fails where it says that the handler still reports success: the
  person is deleted, the removal of its photo raises, and the answer is a 500 error with
  the deletion in place.
\<close>

theorem file_removal_failure_counterexample:
  "batch_update_persons (demo_remote False) photo_db (Some ''alice'') ''t1'' (Some delete_first)
     = ((Json_error ''Error during batch processing'', 500), photo_db\<lparr>persons := []\<rparr>)"
  by (simp add: batch_update_persons_def get_tree_and_user_permissions_def truthy_def
      files_to_delete_def demo_remote_def photo_db_def delete_first_def demo_tree_def
      deleted_files_def served_file_def startswith_def replace_with_empty_def)

end
